theory Spec2Isabelle
  imports Complex_Main "HOL-Library.Sublist"
begin

section \<open>Errors\<close>

text \<open>
  The exceptions the modelled code can raise.  \<open>ProviderError\<close> is the gateway's own
  exception class (it carries a message); the others are Python or library exceptions that
  the code lets escape or catches.
\<close>

datatype error =
    ProviderError string
  | ValidationError string
  | TypeError
  | IndexError
  | KeyError
  | AttributeError
  | RuntimeError
  | UnicodeDecodeError
  | JSONDecodeError
  | OtherError string


text \<open>
  \<open>str(e)\<close> of an exception, as used when the code wraps it into a \<open>ProviderError\<close>.
  For the exceptions that carry a message here it is that message.  The message of a
  builtin exception depends on the operation that raised it and is not kept in this
  datatype; for those the class name stands in for it.
\<close>

fun str_of_error :: "error \<Rightarrow> string" where
  "str_of_error (ProviderError m) = m"
| "str_of_error (ValidationError m) = m"
| "str_of_error (OtherError m) = m"
| "str_of_error TypeError = ''TypeError''"
| "str_of_error IndexError = ''IndexError''"
| "str_of_error KeyError = ''KeyError''"
| "str_of_error AttributeError = ''AttributeError''"
| "str_of_error RuntimeError = ''RuntimeError''"
| "str_of_error UnicodeDecodeError = ''UnicodeDecodeError''"
| "str_of_error JSONDecodeError = ''JSONDecodeError''"

section \<open>Cost model: \<open>ProviderCore.calculate_cost\<close>\<close>

text \<open>
  A band of a tiered price: \<open>cost_range.range[0]\<close>, \<open>cost_range.range[1]\<close> (which may be
  \<open>None\<close>) and \<open>cost_range.cost\<close>.  Python floats are modelled by reals: the claims are
  about which rate is selected, not about rounding.
\<close>

record cost_range =
  range_lo :: int
  range_hi :: "int option"
  cost :: real

text \<open>\<open>token_cost\<close> is either a float or a list of bands (\<open>isinstance(token_cost, list)\<close>).\<close>

datatype token_cost = Flat real | Banded "cost_range list"

text \<open>
  The loop condition
  \<^verbatim>\<open>token_count >= cost_range.range[0] and (cost_range.range[1] is None or token_count <= cost_range.range[1])\<close>.
\<close>

definition in_range :: "int \<Rightarrow> cost_range \<Rightarrow> bool" where
  "in_range token_count r =
     (range_lo r \<le> token_count \<and>
      (case range_hi r of None \<Rightarrow> True | Some hi \<Rightarrow> token_count \<le> hi))"

text \<open>
  The \<open>for cost_range in token_cost\<close> loop: the first band that contains the count returns;
  when the loop runs out the function falls through to its final \<open>return 0\<close>.
\<close>

fun calculate_cost_bands :: "int \<Rightarrow> cost_range list \<Rightarrow> real" where
  "calculate_cost_bands token_count [] = 0"
| "calculate_cost_bands token_count (r # rs) =
     (if in_range token_count r then cost r * of_int token_count
      else calculate_cost_bands token_count rs)"

fun calculate_cost :: "int \<Rightarrow> token_cost \<Rightarrow> real" where
  "calculate_cost token_count (Banded rs) = calculate_cost_bands token_count rs"
| "calculate_cost token_count (Flat c) = c * of_int token_count"

section \<open>The chat call: \<open>ProviderCore.chat\<close>\<close>

text \<open>
  The validated request (\<open>ChatRequest\<close>): the fields the call itself reads.  \<open>retries\<close> is
  declared \<open>Optional[int]\<close>.
\<close>

record chat_request =
  req_model :: string
  req_is_stream :: bool
  req_retries :: "int option"

text \<open>
  A provider: the abstract methods of \<open>ProviderCore\<close> that \<open>chat\<close> calls, and the
  configuration it reads.  \<open>validate_request\<close> builds the request from the raw arguments
  or raises; \<open>generate_client\<close> posts to the upstream and returns its response or raises;
  \<open>handle_response_non_stream\<close> runs inside \<open>chat\<close> and may raise.
  \<open>handle_response_stream\<close> is a generator function: calling it only creates the
  generator, so nothing of it runs inside \<open>chat\<close>.
\<close>

record ('raw, 'resp, 'out) provider =
  config_name :: string
  config_models :: "string list"
  validate_request :: "'raw \<Rightarrow> error + chat_request"
  generate_client :: "chat_request \<Rightarrow> error + 'resp"
  handle_response_non_stream :: "chat_request \<Rightarrow> 'resp \<Rightarrow> error + 'out"

text \<open>What \<open>chat\<close> returns: the unstarted generator over the response, or the complete result.\<close>

datatype ('resp, 'out) chat_result = Stream chat_request 'resp | Complete 'out

text \<open>
  \<^verbatim>\<open>if request.model not in self.config.models: raise ProviderError(...)\<close>
\<close>

definition validate_model :: "('raw, 'resp, 'out) provider \<Rightarrow> chat_request \<Rightarrow> error + unit" where
  "validate_model p request =
     (if req_model request \<notin> set (config_models p)
      then Inl (ProviderError
                 (''Model '' @ req_model request @ '' is not supported by '' @ config_name p))
      else Inr ())"

text \<open>
  The loop \<open>for _ in range(request.retries + 1)\<close>, over the number of iterations left.  The
  second component counts the calls of \<open>generate_client\<close>, the network attempts.  Every path
  through the body leaves the function: it returns the handler's value, or the
  \<open>except Exception\<close> clause raises \<open>ProviderError(str(e))\<close>.  The statement after the
  loop, \<open>raise ProviderError("Too many requests")\<close>, is reached when the range is empty.
\<close>

fun chat_attempts ::
  "('raw, 'resp, 'out) provider \<Rightarrow> chat_request \<Rightarrow> nat \<Rightarrow> nat
     \<Rightarrow> (error + ('resp, 'out) chat_result) \<times> nat" where
  "chat_attempts p request 0 sends = (Inl (ProviderError ''Too many requests''), sends)"
| "chat_attempts p request (Suc k) sends =
     (case generate_client p request of
        Inl e \<Rightarrow> (Inl (ProviderError (str_of_error e)), Suc sends)
      | Inr response \<Rightarrow>
          if req_is_stream request then (Inr (Stream request response), Suc sends)
          else (case handle_response_non_stream p request response of
                  Inl e \<Rightarrow> (Inl (ProviderError (str_of_error e)), Suc sends)
                | Inr out \<Rightarrow> (Inr (Complete out), Suc sends)))"

text \<open>
  \<open>chat\<close>: validation (only \<open>ValidationError\<close> is caught and re-raised as
  \<open>ProviderError\<close>), the model check, then the attempts.  \<open>request.retries + 1\<close> with
  \<open>retries\<close> \<open>None\<close> is a \<open>TypeError\<close>, raised outside the \<open>try\<close>.
\<close>

definition chat ::
  "('raw, 'resp, 'out) provider \<Rightarrow> 'raw \<Rightarrow> (error + ('resp, 'out) chat_result) \<times> nat" where
  "chat p raw =
     (case validate_request p raw of
        Inl (ValidationError m) \<Rightarrow> (Inl (ProviderError m), 0)
      | Inl e \<Rightarrow> (Inl e, 0)
      | Inr request \<Rightarrow>
          (case validate_model p request of
             Inl e \<Rightarrow> (Inl e, 0)
           | Inr u \<Rightarrow>
               (case req_retries request of
                  None \<Rightarrow> (Inl TypeError, 0)
                | Some r \<Rightarrow> chat_attempts p request (nat (r + 1)) 0)))"

text \<open>A provider whose send always fails, and a request with \<open>retries = 2\<close>.\<close>

definition failing_provider :: "(chat_request, unit, unit) provider" where
  "failing_provider =
     \<lparr>config_name = ''mock'', config_models = [''test_model''],
      validate_request = Inr,
      generate_client = (\<lambda>request. Inl (OtherError ''connection refused'')),
      handle_response_non_stream = (\<lambda>request response. Inr ())\<rparr>"

definition retry_request :: chat_request where
  "retry_request = \<lparr>req_model = ''test_model'', req_is_stream = False, req_retries = Some 2\<rparr>"

section \<open>Canonical chunks\<close>

text \<open>
  A chunk is the dictionary a normalizer yields: the dump of an OpenAI-style
  \<open>ChatCompletionChunk\<close>.  A field that the dump may hold as \<open>None\<close> is an option.
  A tool-call fragment (\<open>ChoiceDeltaToolCall\<close>) carries the index of the call it belongs
  to.  The \<open>type\<close> entry of the fragment's function dictionary is present only when the
  producer put it there (\<open>fn_type = None\<close>: no such key).
\<close>

record function_delta =
  fn_name :: "string option"
  fn_arguments :: "string option"
  fn_type :: "string option"

record tool_call_delta =
  tc_index :: int
  tc_id :: "string option"
  tc_function :: "function_delta option"
  tc_type :: "string option"

record function_call_delta =
  fc_name :: "string option"
  fc_arguments :: "string option"

record choice_delta =
  delta_content :: "string option"
  delta_function_call :: "function_call_delta option"
  delta_role :: "string option"
  delta_tool_calls :: "tool_call_delta list option"

record choice =
  choice_delta :: choice_delta
  choice_finish_reason :: "string option"
  choice_index :: int

record chunk =
  chunk_id :: string
  chunk_choices :: "choice list"
  chunk_created :: int
  chunk_model :: string

section \<open>The joined completion\<close>

text \<open>
  The non-streaming-shaped object that \<open>join_chunks\<close> builds: \<open>ChatCompletion\<close> with its
  \<open>Choice\<close>, \<open>ChatCompletionMessage\<close>, \<open>ChatCompletionMessageToolCall\<close>, \<open>Function\<close>
  and \<open>FunctionCall\<close>.  Their string fields are required strings.
\<close>

record function_obj =
  fun_arguments :: string
  fun_name :: string

record message_tool_call =
  mtc_id :: string
  mtc_function :: function_obj
  mtc_type :: string

record completion_message =
  msg_content :: "string option"
  msg_role :: string
  msg_function_call :: "function_obj option"
  msg_tool_calls :: "message_tool_call list option"

record completion_choice =
  cc_finish_reason :: string
  cc_index :: int
  cc_message :: completion_message

record chat_completion =
  completion_id :: string
  completion_created :: int
  completion_model :: string
  completion_object :: string
  completion_choices :: "completion_choice list"

section \<open>Joining chunks: \<open>ProviderCore.join_chunks\<close>\<close>

text \<open>Running a raising function over a list, in order: the first exception ends it.\<close>

fun map_raising :: "('a \<Rightarrow> error + 'b) \<Rightarrow> 'a list \<Rightarrow> error + 'b list" where
  "map_raising f [] = Inr []"
| "map_raising f (x # xs) =
     (case f x of
        Inl e \<Rightarrow> Inl e
      | Inr y \<Rightarrow> (case map_raising f xs of Inl e \<Rightarrow> Inl e | Inr ys \<Rightarrow> Inr (y # ys)))"

text \<open>
  \<^verbatim>\<open>tool_calls.setdefault(data["index"], []).append(data)\<close> on a dictionary kept as an
  association list in insertion order, which is the order of \<open>tool_calls.values()\<close>.
\<close>

fun setdefault_append :: "int \<Rightarrow> 'a \<Rightarrow> (int \<times> 'a list) list \<Rightarrow> (int \<times> 'a list) list" where
  "setdefault_append k v [] = [(k, [v])]"
| "setdefault_append k v ((k', vs) # rest) =
     (if k = k' then (k', vs @ [v]) # rest else (k', vs) # setdefault_append k v rest)"

text \<open>
  The grouping loop.  \<open>chunk.get("choices")[0]\<close> on an empty list and
  \<open>.get("tool_calls")[0]\<close> on an empty list raise \<open>IndexError\<close>, which is not caught;
  \<open>.get("tool_calls")\<close> being \<open>None\<close> raises the \<open>TypeError\<close> that the loop catches to
  \<open>continue\<close>.
\<close>

fun group_tool_calls ::
  "chunk list \<Rightarrow> (int \<times> tool_call_delta list) list
     \<Rightarrow> error + (int \<times> tool_call_delta list) list" where
  "group_tool_calls [] tool_calls = Inr tool_calls"
| "group_tool_calls (chunk # chunks) tool_calls =
     (case chunk_choices chunk of
        [] \<Rightarrow> Inl IndexError
      | c # cs \<Rightarrow>
          (case delta_tool_calls (choice_delta c) of
             None \<Rightarrow> group_tool_calls chunks tool_calls
           | Some [] \<Rightarrow> Inl IndexError
           | Some (data # ds) \<Rightarrow>
               group_tool_calls chunks (setdefault_append (tc_index data) data tool_calls)))"

text \<open>\<open>t[0].get("id")\<close>, \<open>t[0].get("function").get("name")\<close> and
  \<open>t[0].get("function").get("type", "function")\<close> for one group \<open>t\<close>.\<close>

definition first_id :: "tool_call_delta list \<Rightarrow> error + string option" where
  "first_id t = (case t of [] \<Rightarrow> Inl IndexError | d # ds \<Rightarrow> Inr (tc_id d))"

definition first_name :: "tool_call_delta list \<Rightarrow> error + string option" where
  "first_name t =
     (case t of
        [] \<Rightarrow> Inl IndexError
      | d # ds \<Rightarrow> (case tc_function d of None \<Rightarrow> Inl AttributeError | Some f \<Rightarrow> Inr (fn_name f)))"

definition first_type :: "tool_call_delta list \<Rightarrow> error + string" where
  "first_type t =
     (case t of
        [] \<Rightarrow> Inl IndexError
      | d # ds \<Rightarrow>
          (case tc_function d of
             None \<Rightarrow> Inl AttributeError
           | Some f \<Rightarrow> Inr (case fn_type f of None \<Rightarrow> ''function'' | Some ty \<Rightarrow> ty)))"

text \<open>
  \<^verbatim>\<open>"".join(chunk.get("function", {}).get("arguments", "") for chunk in t)\<close>:
  \<open>join\<close> first runs the generator to its end (\<open>AttributeError\<close> where a fragment's
  \<open>function\<close> is \<open>None\<close>), then refuses an item that is \<open>None\<close> with \<open>TypeError\<close>.
\<close>

definition fragment_arguments :: "tool_call_delta \<Rightarrow> error + string option" where
  "fragment_arguments d =
     (case tc_function d of None \<Rightarrow> Inl AttributeError | Some f \<Rightarrow> Inr (fn_arguments f))"

definition join_strings :: "string option list \<Rightarrow> error + string" where
  "join_strings items =
     (if None \<in> set items then Inl TypeError
      else Inr (concat (map (\<lambda>x. case x of None \<Rightarrow> [] | Some s \<Rightarrow> s) items)))"

definition group_arguments :: "tool_call_delta list \<Rightarrow> error + string" where
  "group_arguments t =
     (case map_raising fragment_arguments t of Inl e \<Rightarrow> Inl e | Inr items \<Rightarrow> join_strings items)"

text \<open>
  \<^verbatim>\<open>ChatCompletionMessageToolCall(id=..., function=Function(arguments=..., name=...), type=...)\<close>:
  the library validates that \<open>name\<close> and \<open>id\<close> are strings and that \<open>type\<close> is the
  literal \<open>function\<close>.
\<close>

definition parse_tool_call ::
  "string \<times> string option \<times> string \<times> string option \<Rightarrow> error + message_tool_call" where
  "parse_tool_call q =
     (case q of (tool_call_arguments, tool_call_name, tool_call_type, tool_call_id) \<Rightarrow>
        (case tool_call_name of
           None \<Rightarrow> Inl (ValidationError ''Function.name'')
         | Some name \<Rightarrow>
             (case tool_call_id of
                None \<Rightarrow> Inl (ValidationError ''ChatCompletionMessageToolCall.id'')
              | Some i \<Rightarrow>
                  if tool_call_type \<noteq> ''function''
                  then Inl (ValidationError ''ChatCompletionMessageToolCall.type'')
                  else Inr \<lparr>mtc_id = i,
                            mtc_function = \<lparr>fun_arguments = tool_call_arguments, fun_name = name\<rparr>,
                            mtc_type = tool_call_type\<rparr>)))"

text \<open>The \<open>ChatCompletion\<close> all three branches build from the last chunk and a message.\<close>

definition completion_of :: "chunk \<Rightarrow> string \<Rightarrow> completion_message \<Rightarrow> chat_completion" where
  "completion_of last_chunk reason message =
     \<lparr>completion_id = chunk_id last_chunk,
      completion_created = chunk_created last_chunk,
      completion_model = chunk_model last_chunk,
      completion_object = ''chat.completion'',
      completion_choices = [\<lparr>cc_finish_reason = reason, cc_index = 0, cc_message = message\<rparr>]\<rparr>"

text \<open>
  The branch \<open>finish_reason == "tool_calls"\<close>.  \<open>py_str\<close> is Python's \<open>str\<close> of a list of
  strings, applied to \<open>tool_call_names + tool_call_arguments_all\<close>; the names are strings
  there, since the tool calls were built from them.
\<close>

definition join_tool_calls ::
  "(string list \<Rightarrow> string) \<Rightarrow> chunk list \<Rightarrow> error + (chat_completion \<times> string) option" where
  "join_tool_calls py_str chunks =
     (case group_tool_calls chunks [] of
        Inl e \<Rightarrow> Inl e
      | Inr tool_calls \<Rightarrow>
     (case map_raising first_id (map snd tool_calls) of
        Inl e \<Rightarrow> Inl e
      | Inr tool_call_ids \<Rightarrow>
     (case map_raising first_name (map snd tool_calls) of
        Inl e \<Rightarrow> Inl e
      | Inr tool_call_names \<Rightarrow>
     (case map_raising first_type (map snd tool_calls) of
        Inl e \<Rightarrow> Inl e
      | Inr tool_call_types \<Rightarrow>
     (case map_raising group_arguments (map snd tool_calls) of
        Inl e \<Rightarrow> Inl e
      | Inr tool_call_arguments_all \<Rightarrow>
     (case map_raising parse_tool_call
             (zip tool_call_arguments_all
                (zip tool_call_names (zip tool_call_types tool_call_ids))) of
        Inl e \<Rightarrow> Inl e
      | Inr tool_calls_parsed \<Rightarrow>
          Inr (Some
            (completion_of (last chunks) ''tool_calls''
               \<lparr>msg_content = None, msg_role = ''assistant'', msg_function_call = None,
                msg_tool_calls = Some tool_calls_parsed\<rparr>,
             py_str (map (\<lambda>t. fun_name (mtc_function t)) tool_calls_parsed
                       @ tool_call_arguments_all)))))))))"

text \<open>
  The branch \<open>finish_reason == "function_call"\<close>.  The list comprehension runs over
  \<open>chunks[:-1]\<close> and keeps the \<open>function_call\<close> of a chunk when \<open>choices\<close> is not empty
  and the \<open>function_call\<close> is not \<open>None\<close> (a dumped delta is a non-empty dictionary, so
  it is always truthy).  \<open>function_calls[0]\<close> raises \<open>IndexError\<close> on an empty list,
  \<open>function_call_arguments += chunk.get("arguments")\<close> raises \<open>TypeError\<close> on \<open>None\<close>,
  and \<open>FunctionCall\<close> requires \<open>name\<close> to be a string.
\<close>

definition chunk_function_call :: "chunk \<Rightarrow> function_call_delta option" where
  "chunk_function_call chunk =
     (case chunk_choices chunk of
        [] \<Rightarrow> None
      | c # cs \<Rightarrow> delta_function_call (choice_delta c))"

fun append_arguments :: "function_call_delta list \<Rightarrow> string \<Rightarrow> error + string" where
  "append_arguments [] function_call_arguments = Inr function_call_arguments"
| "append_arguments (fc # fcs) function_call_arguments =
     (case fc_arguments fc of
        None \<Rightarrow> Inl TypeError
      | Some a \<Rightarrow> append_arguments fcs (function_call_arguments @ a))"

definition join_function_call :: "chunk list \<Rightarrow> error + (chat_completion \<times> string) option" where
  "join_function_call chunks =
     (case List.map_filter chunk_function_call (butlast chunks) of
        [] \<Rightarrow> Inl IndexError
      | fc # fcs \<Rightarrow>
          (case append_arguments (fc # fcs) [] of
             Inl e \<Rightarrow> Inl e
           | Inr function_call_arguments \<Rightarrow>
               (case fc_name fc of
                  None \<Rightarrow> Inl (ValidationError ''FunctionCall.name'')
                | Some function_call_name \<Rightarrow>
                    Inr (Some
                      (completion_of (last chunks) ''function_call''
                         \<lparr>msg_content = None, msg_role = ''assistant'',
                          msg_function_call =
                            Some \<lparr>fun_arguments = function_call_arguments,
                                  fun_name = function_call_name\<rparr>,
                          msg_tool_calls = None\<rparr>,
                       function_call_arguments)))))"

text \<open>
  The branch \<open>finish_reason == "stop" or finish_reason == "length"\<close>.  \<open>class_name\<close> is
  \<open>self.__class__.__name__\<close>.  The list comprehension reads
  \<open>chunk.get("choices")[0].get("delta").get("content")\<close> of every chunk of
  \<open>chunks[start_index:]\<close>; \<open>filter(None, ...)\<close> drops \<open>None\<close> and the empty string; the
  built choice has \<open>finish_reason="stop"\<close> in both cases.
\<close>

definition start_index :: "string \<Rightarrow> nat" where
  "start_index class_name =
     (if class_name \<in> {''OpenAIProvider'', ''AzureProvider''} then 1 else 0)"

definition chunk_content :: "chunk \<Rightarrow> error + string option" where
  "chunk_content chunk =
     (case chunk_choices chunk of
        [] \<Rightarrow> Inl IndexError
      | c # cs \<Rightarrow> Inr (delta_content (choice_delta c)))"

definition truthy :: "string option \<Rightarrow> bool" where
  "truthy x = (case x of None \<Rightarrow> False | Some s \<Rightarrow> s \<noteq> [])"

definition join_stop :: "string \<Rightarrow> chunk list \<Rightarrow> error + (chat_completion \<times> string) option" where
  "join_stop class_name chunks =
     (case map_raising chunk_content (drop (start_index class_name) chunks) of
        Inl e \<Rightarrow> Inl e
      | Inr contents \<Rightarrow>
          (let stop_content = concat (map the (filter truthy contents))
           in Inr (Some
                (completion_of (last chunks) ''stop''
                   \<lparr>msg_content = Some stop_content, msg_role = ''assistant'',
                    msg_function_call = None, msg_tool_calls = None\<rparr>,
                 stop_content))))"

text \<open>
  \<open>join_chunks\<close>.  \<open>chunks[-1]\<close> and \<open>.get("choices")[0]\<close> raise \<open>IndexError\<close> on an
  empty list.  When no branch of the \<open>if\<close>/\<open>elif\<close> chain matches, the function ends
  without a \<open>return\<close>: its value is \<open>None\<close>, here \<open>Inr None\<close>.
\<close>

definition join_chunks ::
  "string \<Rightarrow> (string list \<Rightarrow> string) \<Rightarrow> chunk list \<Rightarrow> error + (chat_completion \<times> string) option" where
  "join_chunks class_name py_str chunks =
     (case chunks of
        [] \<Rightarrow> Inl IndexError
      | k # ks \<Rightarrow>
          (case chunk_choices (last chunks) of
             [] \<Rightarrow> Inl IndexError
           | c # cs \<Rightarrow>
               (let finish_reason = choice_finish_reason c
                in if finish_reason = Some ''tool_calls'' then join_tool_calls py_str chunks
                   else if finish_reason = Some ''function_call'' then join_function_call chunks
                   else if finish_reason = Some ''stop'' \<or> finish_reason = Some ''length''
                   then join_stop class_name chunks
                   else Inr None)))"

section \<open>Streaming: \<open>ProviderCore.handle_response_stream\<close>\<close>




section \<open>Notions used to state the properties\<close>

text \<open>
  The tool-call fragment a chunk carries, as \<open>join_chunks\<close> reads it: the first entry of
  \<open>tool_calls\<close> in the delta of the first choice.  \<open>fragments\<close> lists them in arrival
  order, \<open>first_seen\<close> lists indices in the order of their first occurrence, and
  \<open>fragments_of i\<close> keeps the fragments bearing index \<open>i\<close>.
\<close>

definition fragment :: "chunk \<Rightarrow> tool_call_delta option" where
  "fragment chunk =
     (case chunk_choices chunk of
        [] \<Rightarrow> None
      | c # cs \<Rightarrow> (case delta_tool_calls (choice_delta c) of
                    None \<Rightarrow> None
                  | Some [] \<Rightarrow> None
                  | Some (data # ds) \<Rightarrow> Some data))"

definition fragments :: "chunk list \<Rightarrow> tool_call_delta list" where
  "fragments chunks = List.map_filter fragment chunks"

fun first_seen :: "int list \<Rightarrow> int list" where
  "first_seen [] = []"
| "first_seen (i # is) = i # filter (\<lambda>j. j \<noteq> i) (first_seen is)"

definition fragments_of :: "int \<Rightarrow> tool_call_delta list \<Rightarrow> tool_call_delta list" where
  "fragments_of i frags = filter (\<lambda>d. tc_index d = i) frags"

text \<open>The argument text and the name of a fragment, empty where the fragment has none.\<close>

definition arguments_text :: "tool_call_delta \<Rightarrow> string" where
  "arguments_text d =
     (case tc_function d of
        None \<Rightarrow> []
      | Some f \<Rightarrow> (case fn_arguments f of None \<Rightarrow> [] | Some a \<Rightarrow> a))"

definition name_text :: "tool_call_delta \<Rightarrow> string" where
  "name_text d =
     (case tc_function d of
        None \<Rightarrow> []
      | Some f \<Rightarrow> (case fn_name f of None \<Rightarrow> [] | Some n \<Rightarrow> n))"

text \<open>The text delta of a chunk, empty where it is \<open>None\<close>.\<close>

definition text_delta :: "chunk \<Rightarrow> string" where
  "text_delta chunk =
     (case chunk_choices chunk of
        [] \<Rightarrow> []
      | c # cs \<Rightarrow> (case delta_content (choice_delta c) of None \<Rightarrow> [] | Some s \<Rightarrow> s))"

text \<open>
  The finish reason of the terminal chunk, when the sequence has a last chunk and that
  chunk has a choice; and the finish reasons \<open>join_chunks\<close> knows.
\<close>

definition terminal_finish_reason :: "chunk list \<Rightarrow> string option option" where
  "terminal_finish_reason chunks =
     (case chunks of
        [] \<Rightarrow> None
      | k # ks \<Rightarrow> (case chunk_choices (last chunks) of
                    [] \<Rightarrow> None
                  | c # cs \<Rightarrow> Some (choice_finish_reason c)))"

definition known_finish_reason :: "string option \<Rightarrow> bool" where
  "known_finish_reason r =
     (r \<in> {Some ''stop'', Some ''length'', Some ''tool_calls'', Some ''function_call''})"

text \<open>Every chunk has a choice: the shape of what the normalizers emit.\<close>

definition has_choice :: "chunk \<Rightarrow> bool" where
  "has_choice chunk = (chunk_choices chunk \<noteq> [])"



definition empty_delta :: choice_delta where
  "empty_delta =
     \<lparr>delta_content = None, delta_function_call = None, delta_role = None,
      delta_tool_calls = None\<rparr>"

definition mk_chunk :: "choice_delta \<Rightarrow> string option \<Rightarrow> chunk" where
  "mk_chunk d reason =
     \<lparr>chunk_id = ''id'',
      chunk_choices = [\<lparr>choice_delta = d, choice_finish_reason = reason, choice_index = 0\<rparr>],
      chunk_created = 0, chunk_model = ''m''\<rparr>"

definition text_chunk :: "string \<Rightarrow> chunk" where
  "text_chunk s = mk_chunk (empty_delta\<lparr>delta_content := Some s\<rparr>) None"

definition tool_fragment :: "int \<Rightarrow> string option \<Rightarrow> string option \<Rightarrow> string \<Rightarrow> tool_call_delta" where
  "tool_fragment i call_id name args =
     \<lparr>tc_index = i, tc_id = call_id,
      tc_function = Some \<lparr>fn_name = name, fn_arguments = Some args, fn_type = None\<rparr>,
      tc_type = None\<rparr>"

definition tool_chunk :: "int \<Rightarrow> string option \<Rightarrow> string option \<Rightarrow> string \<Rightarrow> chunk" where
  "tool_chunk i call_id name args =
     mk_chunk (empty_delta\<lparr>delta_tool_calls := Some [tool_fragment i call_id name args]\<rparr>) None"

text \<open>One step of the grouping loop on the fragment of a chunk.\<close>

definition group_step ::
  "(int \<times> tool_call_delta list) list \<Rightarrow> tool_call_delta \<Rightarrow> (int \<times> tool_call_delta list) list" where
  "group_step acc d = setdefault_append (tc_index d) d acc"

text \<open>The id of a fragment, empty where the fragment has none.\<close>

definition id_text :: "tool_call_delta \<Rightarrow> string" where
  "id_text d = (case tc_id d of None \<Rightarrow> [] | Some s \<Rightarrow> s)"

text \<open>
  Python's \<open>str\<close> of a list of strings that hold no single quote, backslash or control
  character: the items in single quotes, separated by a comma and a space, in brackets.
\<close>

fun commas :: "string list \<Rightarrow> string" where
  "commas [] = []"
| "commas [x] = x"
| "commas (x # y # zs) = x @ '', '' @ commas (y # zs)"

definition py_str_plain :: "string list \<Rightarrow> string" where
  "py_str_plain xs = ''['' @ commas (map (\<lambda>s. [CHR 0x27] @ s @ [CHR 0x27]) xs) @ '']''"

section \<open>Upstream payloads\<close>

text \<open>
  What the normalizers read.  An upstream event is the byte string that
  \<open>response.iter_content(chunk_size=None)\<close> hands over; a byte is a \<open>char\<close>.  A Python
  \<open>str\<close> is represented by its UTF-8 encoding, so decoding a byte string keeps the bytes
  when they are well-formed UTF-8 and raises \<open>UnicodeDecodeError\<close> otherwise.  The
  operations the normalizers apply to a decoded string (\<open>startswith\<close>, \<open>split\<close>, \<open>lstrip\<close>
  and \<open>in\<close>, all with ASCII arguments) give the same result on the encoding as on the
  string.
\<close>

definition continuation :: "nat \<Rightarrow> bool" where
  "continuation b = (128 \<le> b \<and> b \<le> 191)"

fun utf8_valid :: "nat list \<Rightarrow> bool" where
  "utf8_valid [] = True"
| "utf8_valid (b # bs) =
     (if b < 128 then utf8_valid bs
      else if 194 \<le> b \<and> b \<le> 223 then
        (case bs of
           b1 # r \<Rightarrow> continuation b1 \<and> utf8_valid r
         | _ \<Rightarrow> False)
      else if 224 \<le> b \<and> b \<le> 239 then
        (case bs of
           b1 # b2 # r \<Rightarrow>
             (if b = 224 then 160 \<le> b1 \<and> b1 \<le> 191
              else if b = 237 then 128 \<le> b1 \<and> b1 \<le> 159
              else continuation b1)
             \<and> continuation b2 \<and> utf8_valid r
         | _ \<Rightarrow> False)
      else if 240 \<le> b \<and> b \<le> 244 then
        (case bs of
           b1 # b2 # b3 # r \<Rightarrow>
             (if b = 240 then 144 \<le> b1 \<and> b1 \<le> 191
              else if b = 244 then 128 \<le> b1 \<and> b1 \<le> 143
              else continuation b1)
             \<and> continuation b2 \<and> continuation b3 \<and> utf8_valid r
         | _ \<Rightarrow> False)
      else False)"

text \<open>\<open>chunk.decode("utf-8")\<close>.\<close>

definition decode :: "string \<Rightarrow> error + string" where
  "decode raw = (if utf8_valid (map of_char raw) then Inr raw else Inl UnicodeDecodeError)"

text \<open>
  \<open>s.split(sep)\<close> for a non-empty separator: the pieces between the occurrences of \<open>sep\<close>,
  found from left to right without overlap.  \<open>cur\<close> is the piece being read.
\<close>

fun split_from :: "string \<Rightarrow> string \<Rightarrow> string \<Rightarrow> string list" where
  "split_from sep [] cur = [cur]"
| "split_from sep (c # cs) cur =
     (if prefix sep (c # cs) then cur # split_from sep (drop (length sep - 1) cs) []
      else split_from sep cs (cur @ [c]))"

definition py_split :: "string \<Rightarrow> string \<Rightarrow> string list" where
  "py_split s sep = split_from sep s []"

text \<open>\<open>s.lstrip(chars)\<close> removes the leading characters that occur in \<open>chars\<close>.\<close>

definition py_lstrip :: "string \<Rightarrow> string \<Rightarrow> string" where
  "py_lstrip s chars = dropWhile (\<lambda>c. c \<in> set chars) s"

text \<open>
  A value returned by \<open>json.loads\<close>.  An object is given by the items of the resulting
  dictionary, so its keys are distinct.  The parser itself (\<open>loads\<close>, \<open>None\<close> where it
  raises) and the printer \<open>json.dumps\<close> are parameters of the normalizers below.
\<close>

datatype json =
    JNull
  | JBool bool
  | JNum real
  | JStr string
  | JArr "json list"
  | JObj "(string \<times> json) list"

fun bind_err :: "error + 'a \<Rightarrow> ('a \<Rightarrow> error + 'b) \<Rightarrow> error + 'b" where
  "bind_err (Inl e) f = Inl e"
| "bind_err (Inr v) f = f v"

text \<open>\<open>x.get(key)\<close>: only a dictionary has the method; a missing key gives \<open>None\<close>.\<close>

fun py_get :: "json \<Rightarrow> string \<Rightarrow> error + json" where
  "py_get (JObj items) key = Inr (case map_of items key of None \<Rightarrow> JNull | Some v \<Rightarrow> v)"
| "py_get x key = Inl AttributeError"

text \<open>\<open>x[key]\<close> with a string key.\<close>

fun py_item :: "json \<Rightarrow> string \<Rightarrow> error + json" where
  "py_item (JObj items) key = (case map_of items key of None \<Rightarrow> Inl KeyError | Some v \<Rightarrow> Inr v)"
| "py_item x key = Inl TypeError"

text \<open>
  \<open>x[0]\<close>.  On a string it is the first character, whose encoding takes as many bytes as
  its leading byte says.
\<close>

definition char_width :: "char \<Rightarrow> nat" where
  "char_width c =
     (if (of_char c :: nat) < 128 then 1
      else if (of_char c :: nat) < 224 then 2
      else if (of_char c :: nat) < 240 then 3
      else 4)"

fun py_first :: "json \<Rightarrow> error + json" where
  "py_first (JArr []) = Inl IndexError"
| "py_first (JArr (v # vs)) = Inr v"
| "py_first (JStr []) = Inl IndexError"
| "py_first (JStr (c # cs)) = Inr (JStr (take (char_width c) (c # cs)))"
| "py_first (JObj items) = Inl KeyError"
| "py_first x = Inl TypeError"

text \<open>\<open>key in x\<close> for a string \<open>key\<close>: a key of a dictionary, an item of a list, a substring.\<close>

fun py_in :: "string \<Rightarrow> json \<Rightarrow> error + bool" where
  "py_in key (JObj items) = Inr (map_of items key \<noteq> None)"
| "py_in key (JArr vs) = Inr (JStr key \<in> set vs)"
| "py_in key (JStr s) = Inr (sublist key s)"
| "py_in key x = Inl TypeError"

text \<open>The truth value of \<open>x\<close> in a condition.\<close>

fun py_truthy :: "json \<Rightarrow> bool" where
  "py_truthy JNull = False"
| "py_truthy (JBool b) = b"
| "py_truthy (JNum r) = (r \<noteq> 0)"
| "py_truthy (JStr s) = (s \<noteq> [])"
| "py_truthy (JArr vs) = (vs \<noteq> [])"
| "py_truthy (JObj items) = (items \<noteq> [])"

text \<open>
  The validation of a field declared \<open>Optional[str]\<close> by the chunk classes: \<open>None\<close> and a
  string pass, anything else is a \<open>ValidationError\<close> (reported here with the name of the
  field only).
\<close>

fun optional_str :: "string \<Rightarrow> json \<Rightarrow> error + string option" where
  "optional_str field JNull = Inr None"
| "optional_str field (JStr s) = Inr (Some s)"
| "optional_str field x = Inl (ValidationError field)"

section \<open>Chunks built by the normalizers\<close>

text \<open>
  A chunk gets its id from \<open>uuid.uuid4()\<close> and its creation time from \<open>time.time()\<close>.
  \<open>uuid4 n\<close> is \<open>str\<close> of the result of the \<open>n\<close>-th call of the former and \<open>clock n\<close> is
  \<open>int\<close> of the result of the \<open>n\<close>-th call of the latter; the state threaded through a
  normalizer is the number of calls made so far of each.
\<close>

record sources =
  uuid4 :: "nat \<Rightarrow> string"
  clock :: "nat \<Rightarrow> int"

type_synonym draws = "nat \<times> nat"

text \<open>
  The chunk with \<open>delta=ChoiceDelta()\<close> and a finish reason, and the chunk with a text
  content, role \<open>assistant\<close> and no finish reason; both normalizers build them with the
  same arguments.
\<close>

fun finish_chunk :: "sources \<Rightarrow> string \<Rightarrow> string \<Rightarrow> draws \<Rightarrow> chunk \<times> draws" where
  "finish_chunk env model reason (u, t) =
     (\<lparr>chunk_id = uuid4 env u,
       chunk_choices =
         [\<lparr>choice_delta =
             \<lparr>delta_content = None, delta_function_call = None, delta_role = None,
              delta_tool_calls = None\<rparr>,
           choice_finish_reason = Some reason, choice_index = 0\<rparr>],
       chunk_created = clock env t, chunk_model = model\<rparr>,
      (Suc u, Suc t))"

fun content_chunk :: "sources \<Rightarrow> string \<Rightarrow> string option \<Rightarrow> draws \<Rightarrow> chunk \<times> draws" where
  "content_chunk env model content (u, t) =
     (\<lparr>chunk_id = uuid4 env u,
       chunk_choices =
         [\<lparr>choice_delta =
             \<lparr>delta_content = content, delta_function_call = None,
              delta_role = Some ''assistant'', delta_tool_calls = None\<rparr>,
           choice_finish_reason = None, choice_index = 0\<rparr>],
       chunk_created = clock env t, chunk_model = model\<rparr>,
      (Suc u, Suc t))"

text \<open>
  The loop \<open>for chunk in response.iter_content(chunk_size=None)\<close> of a normalizer whose
  body is \<open>event\<close>: the chunks yielded, and the exception that ended the generator if one
  escaped the body.
\<close>

fun iter_content ::
  "(string \<Rightarrow> draws \<Rightarrow> (chunk list \<times> error option) \<times> draws) \<Rightarrow> string list \<Rightarrow> draws \<Rightarrow>
   (chunk list \<times> error option) \<times> draws" where
  "iter_content event [] ut = (([], None), ut)"
| "iter_content event (raw # raws) ut =
     (case event raw ut of
        ((out, Some e), ut') \<Rightarrow> ((out, Some e), ut')
      | ((out, None), ut') \<Rightarrow>
          (case iter_content event raws ut' of
             ((rest, err), ut'') \<Rightarrow> ((out @ rest, err), ut'')))"

section \<open>The Anthropic normalizer: \<open>AnthropicProvider.parse_response\<close>\<close>

definition delta_marker :: string where
  "delta_marker = ''event: content_block_delta'' @ [CHR 0x0A] @ ''data: ''"

text \<open>
  The body of the \<open>try\<close>: the second piece of the split is parsed, the text of its delta
  becomes the content of a chunk.  The id is drawn before the content is looked up and
  validated, the time is read after.
\<close>

definition anthropic_delta ::
  "(string \<Rightarrow> json option) \<Rightarrow> sources \<Rightarrow> string \<Rightarrow> string \<Rightarrow> draws \<Rightarrow> (error + chunk) \<times> draws" where
  "anthropic_delta loads env model line ut =
     (case py_split line delta_marker of
        p0 # p1 # ps \<Rightarrow>
          (case loads p1 of
             None \<Rightarrow> (Inl JSONDecodeError, ut)
           | Some data \<Rightarrow>
               (case bind_err (py_get data ''delta'')
                       (\<lambda>d. bind_err (py_get d ''text'') (optional_str ''content'')) of
                  Inl e \<Rightarrow> (Inl e, (Suc (fst ut), snd ut))
                | Inr content \<Rightarrow>
                    (case content_chunk env model content ut of (c, ut') \<Rightarrow> (Inr c, ut'))))
      | _ \<Rightarrow> (Inl IndexError, ut))"

text \<open>
  The handling of a decoded line: a terminal chunk for a line that starts with a stop
  marker; otherwise the \<open>try\<close>, whose bare \<open>except: pass\<close> drops every exception.
\<close>

definition anthropic_line ::
  "(string \<Rightarrow> json option) \<Rightarrow> sources \<Rightarrow> string \<Rightarrow> string \<Rightarrow> draws \<Rightarrow> chunk list \<times> draws" where
  "anthropic_line loads env model line ut =
     (if prefix ''event: content_block_stop'' line \<or> prefix ''event: message_stop'' line
      then (case finish_chunk env model ''stop'' ut of (c, ut') \<Rightarrow> ([c], ut'))
      else (case anthropic_delta loads env model line ut of
              (Inl e, ut') \<Rightarrow> ([], ut')
            | (Inr c, ut') \<Rightarrow> ([c], ut')))"

text \<open>The body of the loop: the decoding is outside the \<open>try\<close>.\<close>

definition anthropic_event ::
  "(string \<Rightarrow> json option) \<Rightarrow> sources \<Rightarrow> string \<Rightarrow> string \<Rightarrow> draws \<Rightarrow>
   (chunk list \<times> error option) \<times> draws" where
  "anthropic_event loads env model raw ut =
     (case decode raw of
        Inl e \<Rightarrow> (([], Some e), ut)
      | Inr line \<Rightarrow>
          (case anthropic_line loads env model line ut of (out, ut') \<Rightarrow> ((out, None), ut')))"

definition anthropic_parse_response ::
  "(string \<Rightarrow> json option) \<Rightarrow> sources \<Rightarrow> string \<Rightarrow> string list \<Rightarrow> draws \<Rightarrow>
   (chunk list \<times> error option) \<times> draws" where
  "anthropic_parse_response loads env model raws ut =
     iter_content (anthropic_event loads env model) raws ut"

section \<open>The VertexAI normalizer: \<open>VertexAIProvider.parse_response\<close>\<close>

text \<open>
  The content of the first candidate of an event:
  \<open>json.loads(chunk.decode("utf-8").lstrip("data: ")).get("candidates")[0].get("content")\<close>.
\<close>

definition vertexai_content :: "(string \<Rightarrow> json option) \<Rightarrow> string \<Rightarrow> error + json" where
  "vertexai_content loads raw =
     bind_err (decode raw) (\<lambda>text.
       case loads (py_lstrip text ''data: '') of
         None \<Rightarrow> Inl JSONDecodeError
       | Some event \<Rightarrow>
           bind_err (py_get event ''candidates'') (\<lambda>candidates.
           bind_err (py_first candidates) (\<lambda>candidate.
             py_get candidate ''content'')))"

text \<open>
  The test of the first branch:
  \<open>"functionCall" in chunk["parts"][0] and chunk["parts"][0]["functionCall"] is not None\<close>.
\<close>

definition is_function_call :: "json \<Rightarrow> error + bool" where
  "is_function_call content =
     bind_err (py_item content ''parts'') (\<lambda>parts.
     bind_err (py_first parts) (\<lambda>part.
     bind_err (py_in ''functionCall'' part) (\<lambda>present.
       if present
       then bind_err (py_item part ''functionCall'') (\<lambda>call. Inr (call \<noteq> JNull))
       else Inr False)))"

text \<open>The first chunk of the function-call branch has a fixed id and no finish reason.\<close>

fun vertexai_first_chunk :: "sources \<Rightarrow> string \<Rightarrow> draws \<Rightarrow> chunk \<times> draws" where
  "vertexai_first_chunk env model (u, t) =
     (\<lparr>chunk_id = ''chatcmpl-9woLM1b1qGErhTbXA3UBQf2FhUAho'',
       chunk_choices =
         [\<lparr>choice_delta =
             \<lparr>delta_content = None, delta_function_call = None,
              delta_role = Some ''assistant'', delta_tool_calls = None\<rparr>,
           choice_finish_reason = None, choice_index = 0\<rparr>],
       chunk_created = clock env t, chunk_model = model\<rparr>,
      (u, Suc t))"

text \<open>
  The chunk that announces the call of the part at position \<open>index\<close>: the name, empty
  arguments, the extra entry \<open>type="function"\<close> in the function, and an id made of
  \<open>call_\<close> and the first 29 characters of a fresh uuid.
\<close>

fun vertexai_name_chunk ::
  "sources \<Rightarrow> string \<Rightarrow> int \<Rightarrow> json \<Rightarrow> draws \<Rightarrow> error + (chunk \<times> draws)" where
  "vertexai_name_chunk env model index functioncall (u, t) =
     bind_err (py_item functioncall ''functionCall'') (\<lambda>call.
     bind_err (py_item call ''name'') (\<lambda>n.
     bind_err (optional_str ''name'' n) (\<lambda>name.
       Inr (\<lparr>chunk_id = uuid4 env u,
             chunk_choices =
               [\<lparr>choice_delta =
                   \<lparr>delta_content = None, delta_function_call = None,
                    delta_role = Some ''assistant'',
                    delta_tool_calls =
                      Some [\<lparr>tc_index = index,
                             tc_id = Some (''call_'' @ take 29 (uuid4 env (Suc u))),
                             tc_function =
                               Some \<lparr>fn_name = name, fn_arguments = Some [],
                                     fn_type = Some ''function''\<rparr>,
                             tc_type = None\<rparr>]\<rparr>,
                 choice_finish_reason = None, choice_index = index\<rparr>],
             chunk_created = clock env t, chunk_model = model\<rparr>,
            (Suc (Suc u), Suc t)))))"

text \<open>The chunk that carries the arguments of that call, printed by \<open>json.dumps\<close>.\<close>

fun vertexai_args_chunk ::
  "(json \<Rightarrow> string) \<Rightarrow> sources \<Rightarrow> string \<Rightarrow> int \<Rightarrow> json \<Rightarrow> draws \<Rightarrow> error + (chunk \<times> draws)" where
  "vertexai_args_chunk dumps env model index functioncall (u, t) =
     bind_err (py_item functioncall ''functionCall'') (\<lambda>call.
     bind_err (py_item call ''args'') (\<lambda>args.
       Inr (\<lparr>chunk_id = uuid4 env u,
             chunk_choices =
               [\<lparr>choice_delta =
                   \<lparr>delta_content = None, delta_function_call = None, delta_role = None,
                    delta_tool_calls =
                      Some [\<lparr>tc_index = index, tc_id = None,
                             tc_function =
                               Some \<lparr>fn_name = None, fn_arguments = Some (dumps args),
                                     fn_type = None\<rparr>,
                             tc_type = None\<rparr>]\<rparr>,
                 choice_finish_reason = None, choice_index = index\<rparr>],
             chunk_created = clock env t, chunk_model = model\<rparr>,
            (Suc u, Suc t))))"

text \<open>
  The loop \<open>for index, functioncall in enumerate(chunk["parts"])\<close>: two chunks for each
  part, until a part raises.
\<close>

fun vertexai_parts ::
  "(json \<Rightarrow> string) \<Rightarrow> sources \<Rightarrow> string \<Rightarrow> int \<Rightarrow> json list \<Rightarrow> draws \<Rightarrow>
   (chunk list \<times> error option) \<times> draws" where
  "vertexai_parts dumps env model index [] ut = (([], None), ut)"
| "vertexai_parts dumps env model index (functioncall # rest) ut =
     (case vertexai_name_chunk env model index functioncall ut of
        Inl e \<Rightarrow> (([], Some e), ut)
      | Inr (name_chunk, ut1) \<Rightarrow>
          (case vertexai_args_chunk dumps env model index functioncall ut1 of
             Inl e \<Rightarrow> (([name_chunk], Some e), ut1)
           | Inr (args_chunk, ut2) \<Rightarrow>
               (case vertexai_parts dumps env model (index + 1) rest ut2 of
                  ((out, err), ut3) \<Rightarrow> ((name_chunk # args_chunk # out, err), ut3))))"

text \<open>
  The function-call branch: the first chunk, the chunks of the parts, the final chunk
  with finish reason \<open>tool_calls\<close>.  The parts are a list here, since their first item
  was read from them and is a dictionary.
\<close>

definition vertexai_function_call ::
  "(json \<Rightarrow> string) \<Rightarrow> sources \<Rightarrow> string \<Rightarrow> json \<Rightarrow> draws \<Rightarrow>
   (chunk list \<times> error option) \<times> draws" where
  "vertexai_function_call dumps env model content ut =
     (case vertexai_first_chunk env model ut of
        (first_chunk, ut1) \<Rightarrow>
          (case py_item content ''parts'' of
             Inl e \<Rightarrow> (([first_chunk], Some e), ut1)
           | Inr parts \<Rightarrow>
               (case parts of
                  JArr items \<Rightarrow>
                    (case vertexai_parts dumps env model 0 items ut1 of
                       ((out, Some e), ut2) \<Rightarrow> ((first_chunk # out, Some e), ut2)
                     | ((out, None), ut2) \<Rightarrow>
                         (case finish_chunk env model ''tool_calls'' ut2 of
                            (final_chunk, ut3) \<Rightarrow>
                              ((first_chunk # out @ [final_chunk], None), ut3)))
                | _ \<Rightarrow> (([first_chunk], Some TypeError), ut1))))"

text \<open>
  The text branch, taken when \<open>chunk.get("parts")[0].get("text")\<close> is true: a chunk with
  that text, then the closing chunk.  Nothing is yielded when it is not.
\<close>

definition vertexai_text ::
  "sources \<Rightarrow> string \<Rightarrow> json \<Rightarrow> draws \<Rightarrow> (chunk list \<times> error option) \<times> draws" where
  "vertexai_text env model content ut =
     (case bind_err (py_get content ''parts'')
             (\<lambda>parts. bind_err (py_first parts) (\<lambda>part. py_get part ''text'')) of
        Inl e \<Rightarrow> (([], Some e), ut)
      | Inr text \<Rightarrow>
          if py_truthy text
          then (case optional_str ''content'' text of
                  Inl e \<Rightarrow> (([], Some e), (Suc (fst ut), snd ut))
                | Inr s \<Rightarrow>
                    (case content_chunk env model s ut of
                       (opening_chunk, ut1) \<Rightarrow>
                         (case finish_chunk env model ''stop'' ut1 of
                            (closing_chunk, ut2) \<Rightarrow>
                              (([opening_chunk, closing_chunk], None), ut2))))
          else (([], None), ut))"

text \<open>The body of the loop.\<close>

definition vertexai_event ::
  "(string \<Rightarrow> json option) \<Rightarrow> (json \<Rightarrow> string) \<Rightarrow> sources \<Rightarrow> string \<Rightarrow> string \<Rightarrow> draws \<Rightarrow>
   (chunk list \<times> error option) \<times> draws" where
  "vertexai_event loads dumps env model raw ut =
     (case bind_err (vertexai_content loads raw)
             (\<lambda>content. bind_err (is_function_call content) (\<lambda>call. Inr (content, call))) of
        Inl e \<Rightarrow> (([], Some e), ut)
      | Inr (content, call) \<Rightarrow>
          if call then vertexai_function_call dumps env model content ut
          else vertexai_text env model content ut)"

definition vertexai_parse_response ::
  "(string \<Rightarrow> json option) \<Rightarrow> (json \<Rightarrow> string) \<Rightarrow> sources \<Rightarrow> string \<Rightarrow> string list \<Rightarrow> draws \<Rightarrow>
   (chunk list \<times> error option) \<times> draws" where
  "vertexai_parse_response loads dumps env model raws ut =
     iter_content (vertexai_event loads dumps env model) raws ut"

section \<open>Notions used to state the properties of the normalizers\<close>

text \<open>
  The finish reason a chunk carries, and whether it carries one (a terminal chunk).
\<close>

definition finish_reason_of :: "chunk \<Rightarrow> string option" where
  "finish_reason_of chunk =
     (case chunk_choices chunk of [] \<Rightarrow> None | c # cs \<Rightarrow> choice_finish_reason c)"

definition terminal :: "chunk \<Rightarrow> bool" where
  "terminal chunk = (finish_reason_of chunk \<noteq> None)"

text \<open>Whether a line starts with one of the two stop markers of the Anthropic stream.\<close>

definition stop_line :: "string \<Rightarrow> bool" where
  "stop_line line =
     (prefix ''event: content_block_stop'' line \<or> prefix ''event: message_stop'' line)"

text \<open>
  Stand-ins for the parameters of concrete runs: a parser and a printer given by the
  table of the texts of the run, and sources of ids and times that count.
\<close>

definition loads_of :: "(string \<times> json) list \<Rightarrow> string \<Rightarrow> json option" where
  "loads_of table s = map_of table s"

definition dumps_of :: "(json \<times> string) list \<Rightarrow> json \<Rightarrow> string" where
  "dumps_of table j = (case map_of table j of None \<Rightarrow> [] | Some s \<Rightarrow> s)"

definition counting :: sources where
  "counting =
     \<lparr>uuid4 = (\<lambda>n. ''00000000-0000-4000-8000-00000000000'' @ [''0123456789'' ! n]),
      clock = (\<lambda>n. 1700000000 + int n)\<rparr>"

section \<open>Properties of the cost model\<close>

lemma calculate_cost_bands_skip:
  "\<forall>x \<in> set pre. \<not> in_range n x \<Longrightarrow>
   calculate_cost_bands n (pre @ rs) = calculate_cost_bands n rs"
  by (induction pre) simp_all

text \<open>
  Claim C6.  A flat rate gives \<open>token_count\<close> times the rate.  A list of bands gives
  \<open>token_count\<close> times the rate of the band whose range contains the count: the count is
  at least the band's lower bound and, when the band has an upper bound, at most that bound
  (both ends inclusive); a band whose upper bound is \<open>None\<close> is unbounded above.  The list
  is scanned in order, so the band found is the first one that contains the count (the only
  one, when the bands do not overlap).
\<close>

theorem calculate_cost_rate:
  "calculate_cost n (Flat c) = c * of_int n \<and>
   ((\<forall>x \<in> set pre. \<not> (range_lo x \<le> n \<and> (\<forall>hi. range_hi x = Some hi \<longrightarrow> n \<le> hi))) \<and>
    range_lo r \<le> n \<and> (\<forall>hi. range_hi r = Some hi \<longrightarrow> n \<le> hi) \<longrightarrow>
      calculate_cost n (Banded (pre @ r # post)) = cost r * of_int n)"
proof -
  have c: "in_range n x = (range_lo x \<le> n \<and> (\<forall>hi. range_hi x = Some hi \<longrightarrow> n \<le> hi))" for x
    by (cases "range_hi x") (simp_all add: in_range_def)
  show ?thesis
    by (simp add: calculate_cost_bands_skip c)
qed

theorem calculate_cost_rate_witness:
  "calculate_cost 1500 (Flat 2) = 3000 \<and>
   calculate_cost 500
     (Banded [\<lparr>range_lo = 0, range_hi = Some 1000, cost = 2\<rparr>,
              \<lparr>range_lo = 1001, range_hi = None, cost = 3\<rparr>]) = 1000 \<and>
   calculate_cost 1000
     (Banded [\<lparr>range_lo = 0, range_hi = Some 1000, cost = 2\<rparr>,
              \<lparr>range_lo = 1001, range_hi = None, cost = 3\<rparr>]) = 2000 \<and>
   calculate_cost 1001
     (Banded [\<lparr>range_lo = 0, range_hi = Some 1000, cost = 2\<rparr>,
              \<lparr>range_lo = 1001, range_hi = None, cost = 3\<rparr>]) = 3003 \<and>
   calculate_cost 1500
     (Banded [\<lparr>range_lo = 0, range_hi = Some 1000, cost = 2\<rparr>,
              \<lparr>range_lo = 1001, range_hi = Some 2000, cost = 3\<rparr>,
              \<lparr>range_lo = 2001, range_hi = None, cost = 4\<rparr>]) = 4500"
  using calculate_cost_rate [of 1500 2 "[]" "\<lparr>range_lo = 0, range_hi = None, cost = 0\<rparr>" "[]"]
    calculate_cost_rate [of 500 0 "[]"
      "\<lparr>range_lo = 0, range_hi = Some 1000, cost = 2\<rparr>"
      "[\<lparr>range_lo = 1001, range_hi = None, cost = 3\<rparr>]"]
    calculate_cost_rate [of 1000 0 "[]"
      "\<lparr>range_lo = 0, range_hi = Some 1000, cost = 2\<rparr>"
      "[\<lparr>range_lo = 1001, range_hi = None, cost = 3\<rparr>]"]
    calculate_cost_rate [of 1001 0
      "[\<lparr>range_lo = 0, range_hi = Some 1000, cost = 2\<rparr>]"
      "\<lparr>range_lo = 1001, range_hi = None, cost = 3\<rparr>" "[]"]
    calculate_cost_rate [of 1500 0
      "[\<lparr>range_lo = 0, range_hi = Some 1000, cost = 2\<rparr>]"
      "\<lparr>range_lo = 1001, range_hi = Some 2000, cost = 3\<rparr>"
      "[\<lparr>range_lo = 2001, range_hi = None, cost = 4\<rparr>]"]
  by simp

text \<open>
  Claim C10.  When no band of a banded cost contains the token count, the result is \<open>0\<close>:
  the function returns, it does not raise.
\<close>

theorem calculate_cost_no_band:
  "\<forall>x \<in> set rs. \<not> in_range n x \<Longrightarrow> calculate_cost n (Banded rs) = 0"
  using calculate_cost_bands_skip [of rs n "[]"] by simp

theorem calculate_cost_no_band_witness:
  "calculate_cost 5
     (Banded [\<lparr>range_lo = 10, range_hi = Some 20, cost = 2\<rparr>,
              \<lparr>range_lo = 21, range_hi = None, cost = 3\<rparr>]) = 0"
  using calculate_cost_no_band [of
      "[\<lparr>range_lo = 10, range_hi = Some 20, cost = 2\<rparr>,
        \<lparr>range_lo = 21, range_hi = None, cost = 3\<rparr>]" 5]
  by (simp add: in_range_def)

section \<open>Properties of the chat call\<close>

text \<open>
  Claim C1.  With \<open>retries = 2\<close> and a send that always fails the claim expects three send
  attempts before the \<open>ProviderError\<close>.  The loop body raises in its \<open>except\<close> clause at
  the first failure, so the call makes one send attempt and raises \<open>ProviderError\<close>; the
  remaining iterations never run.
\<close>

theorem chat_failing_send_one_attempt:
  "chat failing_provider retry_request = (Inl (ProviderError ''connection refused''), 1) \<and>
   snd (chat failing_provider retry_request) \<noteq> 3"
  by (simp add: chat_def failing_provider_def retry_request_def validate_model_def
        numeral_3_eq_3)

text \<open>
  Claim C5.  A \<open>ValidationError\<close> of \<open>validate_request\<close>, or a model that is not in the
  provider's model set, makes \<open>chat\<close> raise \<open>ProviderError\<close> with no call of
  \<open>generate_client\<close>; and \<open>validate_model\<close> raises \<open>ProviderError\<close> exactly when the
  model is absent from the model set.
\<close>

theorem chat_fails_fast:
  "(validate_request p raw = Inl (ValidationError m) \<longrightarrow>
      chat p raw = (Inl (ProviderError m), 0)) \<and>
   (validate_request p raw = Inr request \<and> req_model request \<notin> set (config_models p) \<longrightarrow>
      (\<exists>msg. chat p raw = (Inl (ProviderError msg), 0))) \<and>
   ((\<exists>msg. validate_model p request = Inl (ProviderError msg)) \<longleftrightarrow>
      req_model request \<notin> set (config_models p)) \<and>
   (req_model request \<in> set (config_models p) \<longrightarrow> validate_model p request = Inr ())"
  by (simp add: chat_def validate_model_def)

theorem chat_fails_fast_witness:
  "(\<exists>msg. chat failing_provider (retry_request\<lparr>req_model := ''gpt-x''\<rparr>)
            = (Inl (ProviderError msg), 0)) \<and>
   chat (failing_provider\<lparr>validate_request := (\<lambda>raw. Inl (ValidationError ''bad''))\<rparr>)
        retry_request = (Inl (ProviderError ''bad''), 0) \<and>
   validate_model failing_provider retry_request = Inr ()"
  using chat_fails_fast [of failing_provider "retry_request\<lparr>req_model := ''gpt-x''\<rparr>"
      "''bad''" "retry_request\<lparr>req_model := ''gpt-x''\<rparr>"]
    chat_fails_fast [of "failing_provider\<lparr>validate_request := (\<lambda>raw. Inl (ValidationError ''bad''))\<rparr>"
      retry_request "''bad''" retry_request]
  by (simp add: failing_provider_def retry_request_def validate_model_def)

section \<open>Properties of joining chunks\<close>

lemma map_raising_total:
  "\<forall>x \<in> set xs. f x = Inr (g x) \<Longrightarrow> map_raising f xs = Inr (map g xs)"
  by (induction xs) simp_all

lemma chunk_content_first_choice:
  "chunk_choices k \<noteq> [] \<Longrightarrow>
   chunk_content k = Inr (delta_content (choice_delta (hd (chunk_choices k))))"
  by (cases "chunk_choices k") (simp_all add: chunk_content_def)

lemma concat_truthy:
  "concat (map the (filter truthy xs)) =
   concat (map (\<lambda>x. case x of None \<Rightarrow> [] | Some s \<Rightarrow> s) xs)"
  by (induction xs) (simp_all add: truthy_def split: option.splits)

lemma join_stop_text:
  assumes "\<forall>k \<in> set (drop (start_index cls) chunks). chunk_choices k \<noteq> []"
  shows "join_stop cls chunks =
     Inr (Some (completion_of (last chunks) ''stop''
                  \<lparr>msg_content = Some (concat (map (\<lambda>k. case delta_content (choice_delta (hd (chunk_choices k))) of
                                                    None \<Rightarrow> [] | Some s \<Rightarrow> s)
                                                  (drop (start_index cls) chunks))),
                   msg_role = ''assistant'', msg_function_call = None, msg_tool_calls = None\<rparr>,
                concat (map (\<lambda>k. case delta_content (choice_delta (hd (chunk_choices k))) of
                                   None \<Rightarrow> [] | Some s \<Rightarrow> s)
                         (drop (start_index cls) chunks))))"
proof -
  let ?ks = "drop (start_index cls) chunks"
  have m: "map_raising chunk_content ?ks
           = Inr (map (\<lambda>k. delta_content (choice_delta (hd (chunk_choices k)))) ?ks)"
    using assms by (intro map_raising_total) (simp add: chunk_content_first_choice)
  show ?thesis
    unfolding join_stop_def m by (simp add: concat_truthy Let_def comp_def)
qed

lemma join_chunks_unfold:
  assumes "chunks \<noteq> []" "chunk_choices (last chunks) = c # cs"
  shows "join_chunks cls py_str chunks =
     (if choice_finish_reason c = Some ''tool_calls'' then join_tool_calls py_str chunks
      else if choice_finish_reason c = Some ''function_call'' then join_function_call chunks
      else if choice_finish_reason c = Some ''stop'' \<or> choice_finish_reason c = Some ''length''
      then join_stop cls chunks
      else Inr None)"
proof (cases chunks)
  case Nil
  with assms show ?thesis by simp
next
  case (Cons k ks)
  have "join_chunks cls py_str chunks =
     (case chunk_choices (last chunks) of
        [] \<Rightarrow> Inl IndexError
      | c # cs \<Rightarrow>
          (let finish_reason = choice_finish_reason c
           in if finish_reason = Some ''tool_calls'' then join_tool_calls py_str chunks
              else if finish_reason = Some ''function_call'' then join_function_call chunks
              else if finish_reason = Some ''stop'' \<or> finish_reason = Some ''length''
              then join_stop cls chunks
              else Inr None))"
    unfolding join_chunks_def Cons by (simp only: list.case)
  then show ?thesis
    by (simp only: assms(2) list.case Let_def)
qed

text \<open>
  Claim C4.  When the first choice of the last chunk has finish reason \<open>stop\<close> or
  \<open>length\<close> (and every chunk has a choice, as the chunks of every normalizer do),
  \<open>join_chunks\<close> returns the concatenation, in arrival order, of the text deltas that are
  not \<open>None\<close>, leaving out exactly the first chunk when the provider class is
  \<open>OpenAIProvider\<close> or \<open>AzureProvider\<close> and no chunk otherwise; the same text is the
  content of the message of the completion it builds.
\<close>

theorem join_chunks_stop_text:
  assumes "chunks \<noteq> []"
    and "chunk_choices (last chunks) = c # cs"
    and "choice_finish_reason c = Some ''stop'' \<or> choice_finish_reason c = Some ''length''"
    and "\<forall>k \<in> set chunks. chunk_choices k \<noteq> []"
    and "skip = (if cls = ''OpenAIProvider'' \<or> cls = ''AzureProvider'' then 1 else 0)"
    and "text = concat (map (\<lambda>k. case delta_content (choice_delta (hd (chunk_choices k))) of
                                   None \<Rightarrow> [] | Some s \<Rightarrow> s)
                         (drop skip chunks))"
  shows "join_chunks cls py_str chunks =
     Inr (Some (\<lparr>completion_id = chunk_id (last chunks),
                 completion_created = chunk_created (last chunks),
                 completion_model = chunk_model (last chunks),
                 completion_object = ''chat.completion'',
                 completion_choices =
                   [\<lparr>cc_finish_reason = ''stop'', cc_index = 0,
                     cc_message = \<lparr>msg_content = Some text, msg_role = ''assistant'',
                                   msg_function_call = None, msg_tool_calls = None\<rparr>\<rparr>]\<rparr>,
                text))"
proof -
  have s: "start_index cls = skip"
    unfolding start_index_def assms(5) by simp
  have a: "\<forall>k \<in> set (drop (start_index cls) chunks). chunk_choices k \<noteq> []"
    using assms(4) by (meson in_set_dropD)
  have n1: "choice_finish_reason c \<noteq> Some ''tool_calls''"
    and n2: "choice_finish_reason c \<noteq> Some ''function_call''"
    using assms(3) by auto
  have "join_chunks cls py_str chunks = join_stop cls chunks"
    unfolding join_chunks_unfold[OF assms(1,2)] using n1 n2 assms(3) by simp
  then show ?thesis
    unfolding join_stop_text[OF a] s assms(6) completion_of_def by simp
qed

theorem join_chunks_stop_text_witness:
  "join_chunks ''OpenAIProvider'' concat
     [text_chunk ''X'', text_chunk ''Hel'', mk_chunk empty_delta None, text_chunk ''lo'',
      mk_chunk empty_delta (Some ''stop'')]
   = Inr (Some (\<lparr>completion_id = ''id'', completion_created = 0, completion_model = ''m'',
                  completion_object = ''chat.completion'',
                  completion_choices =
                    [\<lparr>cc_finish_reason = ''stop'', cc_index = 0,
                      cc_message = \<lparr>msg_content = Some ''Hello'', msg_role = ''assistant'',
                                    msg_function_call = None, msg_tool_calls = None\<rparr>\<rparr>]\<rparr>,
                 ''Hello''))
   \<and> join_chunks ''AnthropicProvider'' concat
     [text_chunk ''X'', text_chunk ''Hel'', mk_chunk empty_delta None, text_chunk ''lo'',
      mk_chunk empty_delta (Some ''length'')]
   = Inr (Some (\<lparr>completion_id = ''id'', completion_created = 0, completion_model = ''m'',
                  completion_object = ''chat.completion'',
                  completion_choices =
                    [\<lparr>cc_finish_reason = ''stop'', cc_index = 0,
                      cc_message = \<lparr>msg_content = Some ''XHello'', msg_role = ''assistant'',
                                    msg_function_call = None, msg_tool_calls = None\<rparr>\<rparr>]\<rparr>,
                 ''XHello''))"
  using join_chunks_stop_text [of
      "[text_chunk ''X'', text_chunk ''Hel'', mk_chunk empty_delta None, text_chunk ''lo'',
        mk_chunk empty_delta (Some ''stop'')]"
      "\<lparr>choice_delta = empty_delta, choice_finish_reason = Some ''stop'', choice_index = 0\<rparr>"
      "[]" 1 "''OpenAIProvider''" "''Hello''" concat]
    join_chunks_stop_text [of
      "[text_chunk ''X'', text_chunk ''Hel'', mk_chunk empty_delta None, text_chunk ''lo'',
        mk_chunk empty_delta (Some ''length'')]"
      "\<lparr>choice_delta = empty_delta, choice_finish_reason = Some ''length'', choice_index = 0\<rparr>"
      "[]" 0 "''AnthropicProvider''" "''XHello''" concat]
  by (simp add: mk_chunk_def text_chunk_def empty_delta_def)

section \<open>Properties of the streaming handler\<close>






section \<open>Properties of the tool-call join\<close>

lemma keys_setdefault_append_in:
  "k \<in> fst ` set xs \<Longrightarrow> map fst (setdefault_append k v xs) = map fst xs"
proof (induction xs)
  case Nil
  then show ?case by simp
next
  case (Cons p ps)
  obtain k' vs where p: "p = (k', vs)" by (cases p)
  show ?case
  proof (cases "k = k'")
    case True
    then show ?thesis by (simp add: p)
  next
    case False
    with Cons.prems p have "k \<in> fst ` set ps" by auto
    from Cons.IH[OF this] False show ?thesis by (simp add: p)
  qed
qed

lemma keys_setdefault_append_notin:
  "k \<notin> fst ` set xs \<Longrightarrow> map fst (setdefault_append k v xs) = map fst xs @ [k]"
  by (induction xs) auto

lemma keys_setdefault_append:
  "map fst (setdefault_append k v xs) =
     (if k \<in> fst ` set xs then map fst xs else map fst xs @ [k])"
  by (simp add: keys_setdefault_append_in keys_setdefault_append_notin)

lemma map_of_setdefault_append:
  "map_of (setdefault_append k v xs) =
     (map_of xs)(k \<mapsto> (case map_of xs k of None \<Rightarrow> [v] | Some vs \<Rightarrow> vs @ [v]))"
  by (induction xs) (auto simp: fun_eq_iff)

lemma distinct_setdefault_append:
  "distinct (map fst xs) \<Longrightarrow> distinct (map fst (setdefault_append k v xs))"
  by (simp add: keys_setdefault_append)

lemma group_tool_calls_foldl:
  "\<forall>k \<in> set chunks. has_choice k \<and>
      delta_tool_calls (choice_delta (hd (chunk_choices k))) \<noteq> Some [] \<Longrightarrow>
   group_tool_calls chunks acc = Inr (foldl group_step acc (fragments chunks))"
proof (induction chunks arbitrary: acc)
  case Nil
  show ?case by (simp add: fragments_def List.map_filter_simps)
next
  case (Cons k ks)
  from Cons.prems obtain c cs where kc: "chunk_choices k = c # cs"
    by (cases "chunk_choices k") (auto simp: has_choice_def)
  from Cons.prems kc have ne: "delta_tool_calls (choice_delta c) \<noteq> Some []" by simp
  have rest: "\<forall>k \<in> set ks. has_choice k \<and>
      delta_tool_calls (choice_delta (hd (chunk_choices k))) \<noteq> Some []"
    using Cons.prems by simp
  show ?case
  proof (cases "delta_tool_calls (choice_delta c)")
    case None
    then have "fragment k = None" by (simp add: fragment_def kc)
    then show ?thesis
      using None kc Cons.IH[OF rest] by (simp add: fragments_def List.map_filter_simps)
  next
    case (Some ds)
    with ne obtain d ds' where ds: "ds = d # ds'" by (cases ds) auto
    then have "fragment k = Some d" by (simp add: fragment_def kc Some)
    then show ?thesis
      using Some ds kc Cons.IH[OF rest]
      by (simp add: fragments_def List.map_filter_simps group_step_def)
  qed
qed

lemma keys_foldl:
  "map fst (foldl group_step acc frags) =
     map fst acc @ filter (\<lambda>i. i \<notin> fst ` set acc) (first_seen (map tc_index frags))"
proof (induction frags arbitrary: acc)
  case Nil
  show ?case by simp
next
  case (Cons d ds)
  show ?case
  proof (cases "tc_index d \<in> fst ` set acc")
    case True
    then have k: "map fst (group_step acc d) = map fst acc"
      by (simp add: group_step_def keys_setdefault_append)
    have "set (map fst (group_step acc d)) = set (map fst acc)"
      by (simp only: k)
    then have s: "fst ` set (group_step acc d) = fst ` set acc"
      by (simp only: set_map)
    have "filter (\<lambda>i. i \<notin> fst ` set acc) (filter (\<lambda>j. j \<noteq> tc_index d) (first_seen (map tc_index ds)))
        = filter (\<lambda>i. i \<notin> fst ` set acc) (first_seen (map tc_index ds))"
      using True by (auto intro!: filter_cong)
    then show ?thesis
      using True by (simp add: Cons.IH k s)
  next
    case False
    then have k: "map fst (group_step acc d) = map fst acc @ [tc_index d]"
      by (simp add: group_step_def keys_setdefault_append)
    have "set (map fst (group_step acc d)) = set (map fst acc @ [tc_index d])"
      by (simp only: k)
    then have s: "fst ` set (group_step acc d) = insert (tc_index d) (fst ` set acc)"
      by (simp only: set_map set_append list.set Un_insert_right Un_empty_right)
    have "filter (\<lambda>i. i \<notin> insert (tc_index d) (fst ` set acc)) (first_seen (map tc_index ds))
        = filter (\<lambda>i. i \<notin> fst ` set acc) (filter (\<lambda>j. j \<noteq> tc_index d) (first_seen (map tc_index ds)))"
      by (auto intro!: filter_cong)
    then show ?thesis
      using False by (simp add: Cons.IH k s)
  qed
qed

lemma map_of_group_step:
  "map_of (group_step acc d) i =
     (if i = tc_index d
      then Some (case map_of acc i of None \<Rightarrow> [d] | Some vs \<Rightarrow> vs @ [d])
      else map_of acc i)"
  by (simp add: group_step_def map_of_setdefault_append)

lemma map_of_foldl:
  "map_of (foldl group_step acc frags) i =
     (case map_of acc i of
        None \<Rightarrow> (if i \<in> tc_index ` set frags then Some (fragments_of i frags) else None)
      | Some vs \<Rightarrow> Some (vs @ fragments_of i frags))"
proof (induction frags arbitrary: acc)
  case Nil
  show ?case by (simp add: fragments_of_def split: option.splits)
next
  case (Cons d ds)
  have "map_of (foldl group_step acc (d # ds)) i = map_of (foldl group_step (group_step acc d) ds) i"
    by simp
  also have "\<dots> =
     (case map_of (group_step acc d) i of
        None \<Rightarrow> (if i \<in> tc_index ` set ds then Some (fragments_of i ds) else None)
      | Some vs \<Rightarrow> Some (vs @ fragments_of i ds))"
    by (rule Cons.IH)
  also have "\<dots> =
     (case map_of acc i of
        None \<Rightarrow> (if i \<in> tc_index ` set (d # ds) then Some (fragments_of i (d # ds)) else None)
      | Some vs \<Rightarrow> Some (vs @ fragments_of i (d # ds)))"
    by (cases "map_of acc i"; cases "i = tc_index d")
       (simp_all add: map_of_group_step fragments_of_def)
  finally show ?case .
qed

lemma distinct_foldl:
  "distinct (map fst acc) \<Longrightarrow> distinct (map fst (foldl group_step acc frags))"
  by (induction frags arbitrary: acc) (simp_all add: group_step_def distinct_setdefault_append)

lemma alist_by_keys:
  "distinct (map fst xs) \<Longrightarrow> xs = map (\<lambda>k. (k, the (map_of xs k))) (map fst xs)"
proof (induction xs)
  case Nil
  show ?case by simp
next
  case (Cons p ps)
  obtain k v where p: "p = (k, v)" by (cases p)
  from Cons.prems p have nk: "k \<notin> fst ` set ps" and d: "distinct (map fst ps)" by auto
  have "map (\<lambda>k'. (k', the (map_of (p # ps) k'))) (map fst ps)
      = map (\<lambda>k'. (k', the (map_of ps k'))) (map fst ps)"
    using nk p by (auto simp: image_iff)
  with Cons.IH[OF d] p show ?case by simp
qed

lemma set_first_seen: "set (first_seen is) = set is"
  by (induction "is") auto

lemma grouped:
  "foldl group_step [] frags =
     map (\<lambda>i. (i, fragments_of i frags)) (first_seen (map tc_index frags))"
proof -
  let ?g = "foldl group_step [] frags"
  have keys: "map fst ?g = first_seen (map tc_index frags)"
    using keys_foldl[of "[]" frags] by simp
  have d: "distinct (map fst ?g)" by (rule distinct_foldl) simp
  have "?g = map (\<lambda>k. (k, the (map_of ?g k))) (map fst ?g)"
    by (rule alist_by_keys[OF d])
  also have "\<dots> = map (\<lambda>k. (k, the (map_of ?g k))) (first_seen (map tc_index frags))"
    by (simp only: keys)
  also have "\<dots> = map (\<lambda>i. (i, fragments_of i frags)) (first_seen (map tc_index frags))"
    by (rule map_cong) (auto simp: map_of_foldl set_first_seen)
  finally show ?thesis .
qed

lemma group_tool_calls_grouped:
  assumes "\<forall>k \<in> set chunks. has_choice k \<and>
      delta_tool_calls (choice_delta (hd (chunk_choices k))) \<noteq> Some []"
  shows "group_tool_calls chunks [] =
     Inr (map (\<lambda>i. (i, fragments_of i (fragments chunks)))
            (first_seen (map tc_index (fragments chunks))))"
  using group_tool_calls_foldl[OF assms, of "[]"] by (simp add: grouped)
lemma map_raising_map:
  "\<forall>x \<in> set xs. f (h x) = Inr (g x) \<Longrightarrow> map_raising f (map h xs) = Inr (map g xs)"
  by (induction xs) simp_all

lemma zip_of_maps:
  "zip (map a xs) (zip (map b xs) (zip (map c xs) (map d xs))) =
     map (\<lambda>x. (a x, b x, c x, d x)) xs"
  by (induction xs) simp_all

lemma fragments_of_nonempty:
  "i \<in> tc_index ` set frags \<Longrightarrow> fragments_of i frags \<noteq> []"
  by (auto simp: fragments_of_def filter_empty_conv)

lemma fragments_of_subset: "set (fragments_of i frags) \<subseteq> set frags"
  by (auto simp: fragments_of_def)

lemma group_arguments_text:
  assumes "\<forall>d \<in> set t. \<exists>f a. tc_function d = Some f \<and> fn_arguments f = Some a"
  shows "group_arguments t = Inr (concat (map arguments_text t))"
proof -
  have m: "map_raising fragment_arguments t = Inr (map (\<lambda>d. Some (arguments_text d)) t)"
    using assms
    by (intro map_raising_total) (auto simp: fragment_arguments_def arguments_text_def)
  show ?thesis
    unfolding group_arguments_def m by (simp add: join_strings_def comp_def image_iff)
qed

text \<open>
  Claim C3.  When the first choice of the last chunk has finish reason \<open>tool_calls\<close>,
  \<open>join_chunks\<close> groups the tool-call fragments of the chunks by their index.  The
  completion it returns has one tool call for each index, in the order in which the
  indices first occur; the arguments of the call for an index are the concatenation, in
  arrival order, of the argument texts of the fragments bearing that index and of no other
  fragment, and its name and id are those of the first fragment bearing that index.  The
  conditions are those under which the code does not raise: every chunk has a choice, no
  delta has an empty tool-call list, every fragment has a function with an argument text,
  and the first fragment of every index has an id and a name.
\<close>

theorem join_chunks_tool_calls:
  assumes "chunks \<noteq> []"
    and "chunk_choices (last chunks) = c # cs"
    and "choice_finish_reason c = Some ''tool_calls''"
    and wf: "\<forall>k \<in> set chunks. chunk_choices k \<noteq> [] \<and>
               delta_tool_calls (choice_delta (hd (chunk_choices k))) \<noteq> Some []"
    and fr: "frags = fragments chunks"
    and args: "\<forall>d \<in> set frags. \<exists>f a. tc_function d = Some f \<and> fn_arguments f = Some a"
    and first: "\<forall>i \<in> tc_index ` set frags. \<exists>ident name f.
               tc_id (hd (fragments_of i frags)) = Some ident \<and>
               tc_function (hd (fragments_of i frags)) = Some f \<and> fn_name f = Some name \<and>
               (fn_type f = None \<or> fn_type f = Some ''function'')"
    and calls: "calls = map (\<lambda>i. (name_text (hd (fragments_of i frags)),
                               concat (map arguments_text (fragments_of i frags)),
                               id_text (hd (fragments_of i frags))))
                          (first_seen (map tc_index frags))"
  shows "join_chunks cls py_str chunks =
     Inr (Some (\<lparr>completion_id = chunk_id (last chunks),
                 completion_created = chunk_created (last chunks),
                 completion_model = chunk_model (last chunks),
                 completion_object = ''chat.completion'',
                 completion_choices =
                   [\<lparr>cc_finish_reason = ''tool_calls'', cc_index = 0,
                     cc_message =
                       \<lparr>msg_content = None, msg_role = ''assistant'', msg_function_call = None,
                        msg_tool_calls =
                          Some (map (\<lambda>(name, arguments, ident).
                                       \<lparr>mtc_id = ident,
                                        mtc_function = \<lparr>fun_arguments = arguments, fun_name = name\<rparr>,
                                        mtc_type = ''function''\<rparr>) calls)\<rparr>\<rparr>]\<rparr>,
                py_str (map (\<lambda>(name, arguments, ident). name) calls
                        @ map (\<lambda>(name, arguments, ident). arguments) calls)))"
proof -
  let ?is = "first_seen (map tc_index frags)"
  let ?t = "\<lambda>i. fragments_of i frags"
  let ?d0 = "\<lambda>i. hd (?t i)"
  let ?mk = "\<lambda>i. \<lparr>mtc_id = id_text (?d0 i),
                   mtc_function = \<lparr>fun_arguments = concat (map arguments_text (?t i)),
                                   fun_name = name_text (?d0 i)\<rparr>,
                   mtc_type = ''function''\<rparr>"
  have wf': "\<forall>k \<in> set chunks. has_choice k \<and>
               delta_tool_calls (choice_delta (hd (chunk_choices k))) \<noteq> Some []"
    using wf by (simp add: has_choice_def)
  have g: "group_tool_calls chunks [] = Inr (map (\<lambda>i. (i, ?t i)) ?is)"
    unfolding fr by (rule group_tool_calls_grouped[OF wf'])
  have vals: "map snd (map (\<lambda>i. (i, ?t i)) ?is) = map ?t ?is"
    by (simp add: comp_def)
  have is_in: "i \<in> tc_index ` set frags" if "i \<in> set ?is" for i
    using that by (simp add: set_first_seen)
  have ne: "?t i \<noteq> []" if "i \<in> set ?is" for i
    using is_in[OF that] by (rule fragments_of_nonempty)
  have fst_props: "\<exists>ident name f. tc_id (?d0 i) = Some ident \<and> tc_function (?d0 i) = Some f \<and>
      fn_name f = Some name \<and> (fn_type f = None \<or> fn_type f = Some ''function'')"
    if "i \<in> set ?is" for i
    using first is_in[OF that] by blast
  have ids: "map_raising first_id (map ?t ?is) = Inr (map (\<lambda>i. Some (id_text (?d0 i))) ?is)"
  proof (rule map_raising_map, rule ballI)
    fix i assume i: "i \<in> set ?is"
    from ne[OF i] obtain d ds where t: "?t i = d # ds" by (cases "?t i") auto
    from fst_props[OF i] t show "first_id (?t i) = Inr (Some (id_text (?d0 i)))"
      by (auto simp: first_id_def id_text_def)
  qed
  have names: "map_raising first_name (map ?t ?is) = Inr (map (\<lambda>i. Some (name_text (?d0 i))) ?is)"
  proof (rule map_raising_map, rule ballI)
    fix i assume i: "i \<in> set ?is"
    from ne[OF i] obtain d ds where t: "?t i = d # ds" by (cases "?t i") auto
    from fst_props[OF i] t show "first_name (?t i) = Inr (Some (name_text (?d0 i)))"
      by (auto simp: first_name_def name_text_def)
  qed
  have types: "map_raising first_type (map ?t ?is) = Inr (map (\<lambda>i. ''function'') ?is)"
  proof (rule map_raising_map, rule ballI)
    fix i assume i: "i \<in> set ?is"
    from ne[OF i] obtain d ds where t: "?t i = d # ds" by (cases "?t i") auto
    from fst_props[OF i] t show "first_type (?t i) = Inr ''function''"
      by (auto simp: first_type_def)
  qed
  have argsall: "map_raising group_arguments (map ?t ?is)
      = Inr (map (\<lambda>i. concat (map arguments_text (?t i))) ?is)"
  proof (rule map_raising_map, rule ballI)
    fix i assume "i \<in> set ?is"
    have "\<forall>d \<in> set (?t i). \<exists>f a. tc_function d = Some f \<and> fn_arguments f = Some a"
      using args fragments_of_subset[of i frags] by blast
    then show "group_arguments (?t i) = Inr (concat (map arguments_text (?t i)))"
      by (rule group_arguments_text)
  qed
  have z: "zip (map (\<lambda>i. concat (map arguments_text (?t i))) ?is)
             (zip (map (\<lambda>i. Some (name_text (?d0 i))) ?is)
                (zip (map (\<lambda>i. ''function'') ?is) (map (\<lambda>i. Some (id_text (?d0 i))) ?is)))
        = map (\<lambda>i. (concat (map arguments_text (?t i)), Some (name_text (?d0 i)), ''function'',
                     Some (id_text (?d0 i)))) ?is"
    by (rule zip_of_maps)
  have parsed: "map_raising parse_tool_call
      (map (\<lambda>i. (concat (map arguments_text (?t i)), Some (name_text (?d0 i)), ''function'',
                  Some (id_text (?d0 i)))) ?is) = Inr (map ?mk ?is)"
    by (rule map_raising_map) (simp add: parse_tool_call_def)
  have jt: "join_tool_calls py_str chunks =
     Inr (Some (completion_of (last chunks) ''tool_calls''
                  \<lparr>msg_content = None, msg_role = ''assistant'', msg_function_call = None,
                   msg_tool_calls = Some (map ?mk ?is)\<rparr>,
                py_str (map (\<lambda>t. fun_name (mtc_function t)) (map ?mk ?is)
                        @ map (\<lambda>i. concat (map arguments_text (?t i))) ?is)))"
    by (simp only: join_tool_calls_def g sum.case vals ids names types argsall z parsed)
  have "join_chunks cls py_str chunks = join_tool_calls py_str chunks"
    unfolding join_chunks_unfold[OF assms(1,2)] using assms(3) by simp
  then show ?thesis
    unfolding jt calls completion_of_def by (simp add: comp_def)
qed

theorem join_chunks_tool_calls_witness:
  \<open>join_chunks ''OpenAIProvider'' py_str_plain
     [tool_chunk 0 (Some ''call_a'') (Some ''f'') ''{"a":'',
      tool_chunk 1 (Some ''call_b'') (Some ''g'') ''{"b":'',
      tool_chunk 0 None None ''1}'',
      tool_chunk 1 None None ''2}'',
      mk_chunk empty_delta (Some ''tool_calls'')]
   = Inr (Some (\<lparr>completion_id = ''id'', completion_created = 0, completion_model = ''m'',
                  completion_object = ''chat.completion'',
                  completion_choices =
                    [\<lparr>cc_finish_reason = ''tool_calls'', cc_index = 0,
                      cc_message =
                        \<lparr>msg_content = None, msg_role = ''assistant'', msg_function_call = None,
                         msg_tool_calls =
                           Some [\<lparr>mtc_id = ''call_a'',
                                  mtc_function = \<lparr>fun_arguments = ''{"a":1}'', fun_name = ''f''\<rparr>,
                                  mtc_type = ''function''\<rparr>,
                                 \<lparr>mtc_id = ''call_b'',
                                  mtc_function = \<lparr>fun_arguments = ''{"b":2}'', fun_name = ''g''\<rparr>,
                                  mtc_type = ''function''\<rparr>]\<rparr>\<rparr>]\<rparr>,
                 py_str_plain [''f'', ''g'', ''{"a":1}'', ''{"b":2}'']))\<close>
  using join_chunks_tool_calls [where
      chunks = \<open>[tool_chunk 0 (Some ''call_a'') (Some ''f'') ''{"a":'',
                 tool_chunk 1 (Some ''call_b'') (Some ''g'') ''{"b":'',
                 tool_chunk 0 None None ''1}'',
                 tool_chunk 1 None None ''2}'',
                 mk_chunk empty_delta (Some ''tool_calls'')]\<close>
      and c = \<open>\<lparr>choice_delta = empty_delta, choice_finish_reason = Some ''tool_calls'',
                 choice_index = 0\<rparr>\<close>
      and cs = \<open>[]\<close>
      and frags = \<open>[tool_fragment 0 (Some ''call_a'') (Some ''f'') ''{"a":'',
                    tool_fragment 1 (Some ''call_b'') (Some ''g'') ''{"b":'',
                    tool_fragment 0 None None ''1}'',
                    tool_fragment 1 None None ''2}'']\<close>
      and calls = \<open>[(''f'', ''{"a":1}'', ''call_a''), (''g'', ''{"b":2}'', ''call_b'')]\<close>
      and cls = \<open>''OpenAIProvider''\<close> and py_str = py_str_plain]
  by (simp add: mk_chunk_def tool_chunk_def tool_fragment_def empty_delta_def fragments_def
      fragment_def List.map_filter_simps fragments_of_def arguments_text_def name_text_def
      id_text_def)

end
